theory Spec2Isabelle
  imports Main
begin

section \<open>Data shared by the two disk-search front ends\<close>

text \<open>
  A hit of the disk-search service. The code reads the fields \<open>path\<close> (the
  de-duplication key) and \<open>name\<close> (the display name); further fields of a hit are
  carried along in the extension part of the record.
\<close>

record EverythingResult =
  path :: string
  name :: string

text \<open>
  The object \<open>{ query: searchQuery, cancelled: false }\<close> created per search. Request
  objects are mutable and referenced from \<open>currentSearchRef\<close> and from the closure of
  the call that created them, so they live in a heap (a list indexed by address) and
  \<open>currentSearchRef.current\<close> is an address or \<open>null\<close>.
\<close>

record SearchRequest =
  query :: string
  cancelled :: bool

type_synonym request_heap = "SearchRequest list"

definition deref :: "request_heap \<Rightarrow> nat option \<Rightarrow> SearchRequest option" where
  "deref heap r =
     (case r of None \<Rightarrow> None
      | Some a \<Rightarrow> if a < length heap then Some (heap ! a) else None)"

text \<open>\<open>currentSearchRef.current?.cancelled\<close> as a condition.\<close>

definition ref_cancelled :: "request_heap \<Rightarrow> nat option \<Rightarrow> bool" where
  "ref_cancelled heap r = (case deref heap r of None \<Rightarrow> False | Some q \<Rightarrow> cancelled q)"

text \<open>\<open>currentSearchRef.current?.query !== searchQuery\<close>: true when the reference is null.\<close>

definition ref_query_differs :: "request_heap \<Rightarrow> nat option \<Rightarrow> string \<Rightarrow> bool" where
  "ref_query_differs heap r searchQuery =
     (case deref heap r of None \<Rightarrow> True | Some q \<Rightarrow> query q \<noteq> searchQuery)"

text \<open>\<open>currentSearchRef.current?.query === searchQuery\<close>: false when the reference is null.\<close>

definition ref_query_is :: "request_heap \<Rightarrow> nat option \<Rightarrow> string \<Rightarrow> bool" where
  "ref_query_is heap r searchQuery =
     (case deref heap r of None \<Rightarrow> False | Some q \<Rightarrow> query q = searchQuery)"

text \<open>\<open>currentSearchRef.current.cancelled = true\<close>, when the reference is not null.\<close>

definition mark_cancelled :: "request_heap \<Rightarrow> nat option \<Rightarrow> request_heap" where
  "mark_cancelled heap r =
     (case r of None \<Rightarrow> heap
      | Some a \<Rightarrow> if a < length heap then heap[a := (heap ! a)\<lparr>cancelled := True\<rparr>] else heap)"

text \<open>The payload of an \<open>everything-search-batch\<close> event and the value the awaited
  \<open>tauriApi.searchEverything\<close> resolves to.\<close>

record batch_event =
  batch_results :: "EverythingResult list"
  batch_total_count :: int
  batch_current_count :: int

record search_response =
  response_results :: "EverythingResult list"
  response_total_count :: int

text \<open>
  Strings are sequences of 8-bit characters. \<open>js_whitespace\<close> is the white space of
  JavaScript (\<open>\s\<close>, \<open>trim\<close>) in that range: tab, line feed, vertical tab, form
  feed, carriage return, space and no-break space.
\<close>

definition js_whitespace :: "char \<Rightarrow> bool" where
  "js_whitespace c \<longleftrightarrow>
     c \<in> {CHR 0x09, CHR 0x0A, CHR 0x0B, CHR 0x0C, CHR 0x0D, CHR 0x20, CHR 0xA0}"

definition trim :: "string \<Rightarrow> string" where
  "trim s = rev (dropWhile js_whitespace (rev (dropWhile js_whitespace s)))"

text \<open>\<open>String.prototype.includes\<close>.\<close>

fun js_includes :: "string \<Rightarrow> string \<Rightarrow> bool" where
  "js_includes [] p = (p = [])"
| "js_includes (c # cs) p = (take (length p) (c # cs) = p \<or> js_includes cs p)"

text \<open>The outcome of the awaited \<open>tauriApi.getEverythingStatus()\<close>: it resolves to
  \<open>{available, error}\<close> or rejects.\<close>

datatype status_outcome = StatusResolved bool "string option" | StatusRejected

text \<open>\<open>status.error || null\<close>: a missing or empty error text becomes \<open>null\<close>.\<close>

definition error_or_null :: "string option \<Rightarrow> string option" where
  "error_or_null e = (case e of None \<Rightarrow> None | Some m \<Rightarrow> if m = [] then None else Some m)"

section \<open>EverythingSearchWindow: streaming accumulation\<close>

record esw_state =
  results :: "EverythingResult list"
  totalCount :: "int option"
  currentCount :: int
  isSearching :: bool
  esw_isEverythingAvailable :: bool
  esw_everythingError :: "string option"
  esw_requests :: request_heap
  esw_currentSearchRef :: "nat option"

definition esw_initial :: esw_state where
  "esw_initial = \<lparr>results = [], totalCount = None, currentCount = 0, isSearching = False,
     esw_isEverythingAvailable = False, esw_everythingError = None,
     esw_requests = [], esw_currentSearchRef = None\<rparr>"

text \<open>The updater passed to \<open>setResults\<close> by the batch listener: the set of seen paths
  is built from the previous accumulation only.\<close>

definition mergeBatch :: "EverythingResult list \<Rightarrow> EverythingResult list \<Rightarrow> EverythingResult list" where
  "mergeBatch prev batchResults =
     (let seenPaths = set (map path prev);
          newResults = filter (\<lambda>r. path r \<notin> seenPaths) batchResults
      in prev @ newResults)"

definition esw_batch_listener :: "batch_event \<Rightarrow> esw_state \<Rightarrow> esw_state" where
  "esw_batch_listener ev s =
     (if ref_cancelled (esw_requests s) (esw_currentSearchRef s) then s
      else s\<lparr>results := mergeBatch (results s) (batch_results ev),
             totalCount := Some (batch_total_count ev),
             currentCount := batch_current_count ev\<rparr>)"

text \<open>The loop of \<open>searchEverything\<close> that fills \<open>uniqueResults\<close>, with the
  \<open>Map\<close> of seen paths.\<close>

fun uniqueResults_loop ::
  "EverythingResult list \<Rightarrow> (string \<rightharpoonup> EverythingResult) \<Rightarrow> EverythingResult list
     \<Rightarrow> EverythingResult list" where
  "uniqueResults_loop [] seenPaths uniqueResults = uniqueResults"
| "uniqueResults_loop (result # rest) seenPaths uniqueResults =
     (if seenPaths (path result) = None
      then uniqueResults_loop rest (seenPaths(path result \<mapsto> result)) (uniqueResults @ [result])
      else uniqueResults_loop rest seenPaths uniqueResults)"

definition uniqueResults :: "EverythingResult list \<Rightarrow> EverythingResult list" where
  "uniqueResults rs = uniqueResults_loop rs Map.empty []"

text \<open>
  \<open>searchEverything\<close> is asynchronous. \<open>esw_searchEverything_call\<close> is its body up to
  the \<open>await\<close>; the flag returned says whether the adapter call was issued. The
  continuations run when the awaited call settles: \<open>esw_searchEverything_resolved\<close>
  (the rest of the \<open>try\<close> block) and \<open>esw_searchEverything_rejected\<close> (the
  \<open>catch\<close> block); both end in the \<open>finally\<close> block. Each takes the
  \<open>searchQuery\<close> its closure holds.
\<close>

definition esw_searchEverything_call :: "string \<Rightarrow> esw_state \<Rightarrow> esw_state \<times> bool" where
  "esw_searchEverything_call searchQuery s =
     (if searchQuery = [] \<or> trim searchQuery = [] then
        (s\<lparr>results := [], totalCount := None, currentCount := 0, isSearching := False,
           esw_requests := mark_cancelled (esw_requests s) (esw_currentSearchRef s),
           esw_currentSearchRef := None\<rparr>, False)
      else if \<not> esw_isEverythingAvailable s then
        (s\<lparr>results := [], totalCount := None, currentCount := 0, isSearching := False\<rparr>, False)
      else if ref_query_is (esw_requests s) (esw_currentSearchRef s) searchQuery then (s, False)
      else
        (let heap = mark_cancelled (esw_requests s) (esw_currentSearchRef s)
         in (s\<lparr>esw_requests := heap @ [\<lparr>query = searchQuery, cancelled = False\<rparr>],
               esw_currentSearchRef := Some (length heap),
               results := [], totalCount := None, currentCount := 0, isSearching := True\<rparr>,
             True)))"

definition esw_finally :: "string \<Rightarrow> esw_state \<Rightarrow> esw_state" where
  "esw_finally searchQuery s =
     (if ref_query_is (esw_requests s) (esw_currentSearchRef s) searchQuery
         \<and> \<not> ref_cancelled (esw_requests s) (esw_currentSearchRef s)
      then s\<lparr>isSearching := False\<rparr> else s)"

definition esw_searchEverything_resolved ::
  "string \<Rightarrow> search_response \<Rightarrow> esw_state \<Rightarrow> esw_state" where
  "esw_searchEverything_resolved searchQuery response s =
     esw_finally searchQuery
       (if ref_cancelled (esw_requests s) (esw_currentSearchRef s)
           \<or> ref_query_differs (esw_requests s) (esw_currentSearchRef s) searchQuery
        then s
        else (let u = uniqueResults (response_results response)
              in s\<lparr>results := u,
                   totalCount := Some (response_total_count response),
                   currentCount := int (length u)\<rparr>))"

text \<open>
  The \<open>catch\<close> block, given the error as a string (\<open>errorStr\<close>). When the error names
  a missing or stopped backend the block awaits a status check before \<open>finally\<close>
  runs; the flag returned says so, and \<open>esw_status_rechecked\<close> is the continuation.
\<close>

definition esw_searchEverything_rejected :: "string \<Rightarrow> string \<Rightarrow> esw_state \<Rightarrow> esw_state \<times> bool" where
  "esw_searchEverything_rejected searchQuery errorStr s =
     (if ref_cancelled (esw_requests s) (esw_currentSearchRef s)
      then (esw_finally searchQuery s, False)
      else
        (let s' = s\<lparr>results := [], totalCount := None, currentCount := 0\<rparr>
         in if js_includes errorStr ''NOT_INSTALLED'' \<or> js_includes errorStr ''SERVICE_NOT_RUNNING''
            then (s', True)
            else (esw_finally searchQuery s', False)))"

definition esw_status_rechecked :: "string \<Rightarrow> status_outcome \<Rightarrow> esw_state \<Rightarrow> esw_state" where
  "esw_status_rechecked searchQuery outcome s =
     esw_finally searchQuery
       (case outcome of
          StatusResolved available err \<Rightarrow>
            s\<lparr>esw_isEverythingAvailable := available,
              esw_everythingError := error_or_null err\<rparr>
        | StatusRejected \<Rightarrow> s)"

text \<open>De-duplication by path with the first occurrence winning, as the specification
  words it: keep the head, drop every later entry with the head's path, go on.\<close>

fun dedup_by_path :: "EverythingResult list \<Rightarrow> EverythingResult list" where
  "dedup_by_path [] = []"
| "dedup_by_path (r # rs) = r # dedup_by_path (filter (\<lambda>x. path x \<noteq> path r) rs)"

section \<open>LauncherWindow: URL detection\<close>

text \<open>The character classes of the patterns: \<open>[a-zA-Z]\<close>, \<open>[a-zA-Z0-9]\<close>,
  \<open>[a-zA-Z0-9-]\<close> and \<open>[^\s<>"']\<close>.\<close>

definition is_letter :: "char \<Rightarrow> bool" where
  "is_letter c \<longleftrightarrow> (let n = (of_char c :: nat) in (65 \<le> n \<and> n \<le> 90) \<or> (97 \<le> n \<and> n \<le> 122))"

definition is_digit :: "char \<Rightarrow> bool" where
  "is_digit c \<longleftrightarrow> (let n = (of_char c :: nat) in 48 \<le> n \<and> n \<le> 57)"

definition is_alnum :: "char \<Rightarrow> bool" where
  "is_alnum c \<longleftrightarrow> is_letter c \<or> is_digit c"

definition is_alnum_hyphen :: "char \<Rightarrow> bool" where
  "is_alnum_hyphen c \<longleftrightarrow> is_alnum c \<or> c = CHR ''-''"

definition url_char :: "char \<Rightarrow> bool" where
  "url_char c \<longleftrightarrow> \<not> js_whitespace c \<and> c \<notin> {CHR ''<'', CHR ''>'', CHR 0x22, CHR 0x27}"

text \<open>
  The flag \<open>i\<close> lets a letter of the pattern match either case; no character outside
  ASCII is matched by an ASCII letter of a pattern without the flag \<open>u\<close>.
\<close>

definition ascii_lower :: "char \<Rightarrow> char" where
  "ascii_lower c = (let n = (of_char c :: nat) in if 65 \<le> n \<and> n \<le> 90 then char_of (n + 32) else c)"

definition starts_with_ci :: "string \<Rightarrow> string \<Rightarrow> bool" where
  "starts_with_ci p s \<longleftrightarrow> map ascii_lower (take (length p) s) = p"

text \<open>
  Each matcher gives the length of the match of one alternative of \<open>urlPattern\<close> at
  the start of the string, or \<open>None\<close>. The quantifiers are greedy and each class that
  follows contains the one before it, so the longest run is the match.
  \<open>match_scheme\<close> is \<open>https?:\/\/\<close> under the flag \<open>i\<close>.
\<close>

definition match_scheme :: "string \<Rightarrow> nat option" where
  "match_scheme s =
     (if starts_with_ci ''https://'' s then Some 8
      else if starts_with_ci ''http://'' s then Some 7 else None)"

definition match_http :: "string \<Rightarrow> nat option" where
  "match_http s =
     (case match_scheme s of None \<Rightarrow> None
      | Some k \<Rightarrow> (let n = length (takeWhile url_char (drop k s))
                  in if 1 \<le> n then Some (k + n) else None))"

definition match_www :: "string \<Rightarrow> nat option" where
  "match_www s =
     (if starts_with_ci ''www.'' s
      then (let n = length (takeWhile url_char (drop 4 s))
            in if 1 \<le> n then Some (4 + n) else None)
      else None)"

text \<open>
  \<open>[a-zA-Z0-9][a-zA-Z0-9-]{0,61}[a-zA-Z0-9]?\.[a-zA-Z]{2,}\<close>: after the first
  character the label is the run of letters, digits and hyphens up to the dot, of at
  most 61 characters, or of 62 when the last one is not a hyphen.
\<close>

definition match_domain_head :: "string \<Rightarrow> nat option" where
  "match_domain_head s =
     (case s of [] \<Rightarrow> None
      | c # cs \<Rightarrow>
          if \<not> is_alnum c then None
          else (let label = takeWhile is_alnum_hyphen cs; r = length label; after = drop r cs
                in if (r \<le> 61 \<or> (r = 62 \<and> is_alnum (last label)))
                      \<and> take 1 after = ''.''
                      \<and> 2 \<le> length (takeWhile is_letter (drop 1 after))
                   then Some (1 + r + 1 + length (takeWhile is_letter (drop 1 after)))
                   else None))"

definition match_domain :: "string \<Rightarrow> nat option" where
  "match_domain s =
     (case match_domain_head s of None \<Rightarrow> None
      | Some k \<Rightarrow> Some (k + length (takeWhile url_char (drop k s))))"

text \<open>The alternatives are tried in the order of the pattern.\<close>

definition urlPattern_at :: "string \<Rightarrow> nat option" where
  "urlPattern_at s =
     (case match_http s of Some n \<Rightarrow> Some n
      | None \<Rightarrow> (case match_www s of Some n \<Rightarrow> Some n | None \<Rightarrow> match_domain s))"

text \<open>
  \<open>text.match(urlPattern)\<close> with the flag \<open>g\<close>: the matches from left to right, each
  search starting where the previous match ended. \<open>skip\<close> counts the characters
  still covered by the previous match.
\<close>

fun match_all :: "nat \<Rightarrow> string \<Rightarrow> string list" where
  "match_all skip [] = []"
| "match_all skip (c # cs) =
     (if 0 < skip then match_all (skip - 1) cs
      else (case urlPattern_at (c # cs) of
              None \<Rightarrow> match_all 0 cs
            | Some n \<Rightarrow> take n (c # cs) # match_all (n - 1) cs))"

text \<open>\<open>url.replace(/[.,;:!?]+(?![\/?#&=])$/, '')\<close>: the pattern is anchored at the
  end, where the lookahead holds, so it removes the trailing run of these characters.\<close>

definition is_trailing_punct :: "char \<Rightarrow> bool" where
  "is_trailing_punct c \<longleftrightarrow> c \<in> {CHR ''.'', CHR '','', CHR '';'', CHR '':'', CHR ''!'', CHR ''?''}"

definition strip_trailing_punct :: "string \<Rightarrow> string" where
  "strip_trailing_punct url = rev (dropWhile is_trailing_punct (rev url))"

text \<open>\<open>url.match(/^https?:\/\//i)\<close>.\<close>

definition has_http_scheme :: "string \<Rightarrow> bool" where
  "has_http_scheme url \<longleftrightarrow> match_scheme url \<noteq> None"

text \<open>The function mapped over the matches; \<open>None\<close> is \<open>null\<close>.\<close>

definition normalize_url :: "string \<Rightarrow> string option" where
  "normalize_url m =
     (let url = strip_trailing_punct (trim m)
      in if \<not> has_http_scheme url then
           (if take 4 url = ''www.'' then Some (''https://'' @ url)
            else if match_domain_head url \<noteq> None then Some (''https://'' @ url)
            else None)
         else Some url)"

text \<open>\<open>Array.prototype.indexOf\<close> and the filter
  \<open>self.indexOf(url) === index\<close>.\<close>

fun indexOf :: "'a list \<Rightarrow> 'a \<Rightarrow> int" where
  "indexOf [] x = - 1"
| "indexOf (y # ys) x =
     (if y = x then 0 else (let i = indexOf ys x in if i < 0 then - 1 else i + 1))"

definition remove_duplicates :: "string list \<Rightarrow> string list" where
  "remove_duplicates self =
     map fst (filter (\<lambda>(url, index). indexOf self url = int index) (zip self [0..<length self]))"

definition extractUrls :: "string \<Rightarrow> string list" where
  "extractUrls text =
     (if text = [] \<or> length (trim text) = 0 then []
      else (let matches = match_all 0 text
            in if matches = [] then []
               else remove_duplicates
                      (filter (\<lambda>url. url \<noteq> [])
                         (List.map_filter normalize_url matches))))"

section \<open>LauncherWindow: disk search and display window\<close>

text \<open>
  The state of the component that the disk search reads and writes: the \<open>useState\<close>
  values and the refs. The results of the other sources (applications, file history)
  are held in state of their own, which nothing below reads. A handler reads the
  state of the render that created it; here every handler runs on the current state,
  one event at a time.
\<close>

record lw_state =
  everythingResults :: "EverythingResult list"
  everythingTotalCount :: "int option"
  everythingCurrentCount :: int
  displayedResultsCount :: int
  isEverythingAvailable :: bool
  everythingError :: "string option"
  isSearchingEverything :: bool
  detectedUrls :: "string list"
  shouldPreserveScrollRef :: bool
  finalResultsSetRef :: bool
  requests :: request_heap
  currentSearchRef :: "nat option"

definition MAX_DISPLAY_RESULTS :: int where
  "MAX_DISPLAY_RESULTS = 500"

definition lw_initial :: lw_state where
  "lw_initial = \<lparr>everythingResults = [], everythingTotalCount = None,
     everythingCurrentCount = 0, displayedResultsCount = 500,
     isEverythingAvailable = False, everythingError = None,
     isSearchingEverything = False, detectedUrls = [],
     shouldPreserveScrollRef = False, finalResultsSetRef = False,
     requests = [], currentSearchRef = None\<rparr>"

text \<open>The listener of \<open>everything-search-batch\<close>: it updates the two counts only.\<close>

definition lw_batch_listener :: "batch_event \<Rightarrow> lw_state \<Rightarrow> lw_state" where
  "lw_batch_listener ev s =
     (if ref_cancelled (requests s) (currentSearchRef s) then s
      else s\<lparr>everythingTotalCount := Some (batch_total_count ev),
             everythingCurrentCount := batch_current_count ev\<rparr>)"

text \<open>\<open>searchEverything\<close> up to its \<open>await\<close>; the flag says whether the adapter
  call was issued.\<close>

definition lw_searchEverything_call :: "string \<Rightarrow> lw_state \<Rightarrow> lw_state \<times> bool" where
  "lw_searchEverything_call searchQuery s =
     (if \<not> isEverythingAvailable s then
        (s\<lparr>everythingResults := [], everythingTotalCount := None,
           isSearchingEverything := False\<rparr>, False)
      else
        (let heap = mark_cancelled (requests s) (currentSearchRef s)
         in (s\<lparr>requests := heap @ [\<lparr>query = searchQuery, cancelled = False\<rparr>],
               currentSearchRef := Some (length heap),
               everythingResults := [], everythingTotalCount := None,
               everythingCurrentCount := 0,
               displayedResultsCount := MAX_DISPLAY_RESULTS,
               isSearchingEverything := True,
               finalResultsSetRef := False\<rparr>,
             True)))"

definition lw_finally :: "string \<Rightarrow> lw_state \<Rightarrow> lw_state" where
  "lw_finally searchQuery s =
     (if ref_query_is (requests s) (currentSearchRef s) searchQuery
         \<and> \<not> ref_cancelled (requests s) (currentSearchRef s)
      then s\<lparr>isSearchingEverything := False\<rparr> else s)"

text \<open>The rest of the \<open>try\<close> block, run when the awaited call resolves.\<close>

definition lw_searchEverything_resolved ::
  "string \<Rightarrow> search_response \<Rightarrow> lw_state \<Rightarrow> lw_state" where
  "lw_searchEverything_resolved searchQuery response s =
     lw_finally searchQuery
       (if ref_cancelled (requests s) (currentSearchRef s)
           \<or> ref_query_differs (requests s) (currentSearchRef s) searchQuery
        then s
        else s\<lparr>finalResultsSetRef := True,
               everythingResults := response_results response,
               everythingTotalCount := Some (response_total_count response),
               everythingCurrentCount := int (length (response_results response)),
               displayedResultsCount :=
                 min (int (length (response_results response))) MAX_DISPLAY_RESULTS\<rparr>)"

text \<open>The two texts of the error test that are not ASCII, and the message set when the
  status check itself fails, as UTF-8 bytes.\<close>

definition err_not_found_zh :: string where
  "err_not_found_zh =
     [CHR 0xE6, CHR 0x9C, CHR 0xAA, CHR 0xE6, CHR 0x89, CHR 0xBE, CHR 0xE5, CHR 0x88, CHR 0xB0]"

definition err_not_running_zh :: string where
  "err_not_running_zh =
     [CHR 0xE6, CHR 0x9C, CHR 0xAA, CHR 0xE8, CHR 0xBF, CHR 0x90, CHR 0xE8, CHR 0xA1, CHR 0x8C]"

definition err_recheck_failed_zh :: string where
  "err_recheck_failed_zh =
     [CHR 0xE6, CHR 0x90, CHR 0x9C, CHR 0xE7, CHR 0xB4, CHR 0xA2, CHR 0xE5, CHR 0xA4, CHR 0xB1,
      CHR 0xE8, CHR 0xB4, CHR 0xA5, CHR 0xE5, CHR 0x90, CHR 0x8E, CHR 0xE6, CHR 0x97, CHR 0xA0,
      CHR 0xE6, CHR 0xB3, CHR 0x95, CHR 0xE9, CHR 0x87, CHR 0x8D, CHR 0xE6, CHR 0x96, CHR 0xB0,
      CHR 0xE6, CHR 0xA3, CHR 0x80, CHR 0xE6, CHR 0x9F, CHR 0xA5, CHR 0xE7, CHR 0x8A, CHR 0xB6,
      CHR 0xE6, CHR 0x80, CHR 0x81]"

definition indicates_unavailable :: "string \<Rightarrow> bool" where
  "indicates_unavailable errorStr \<longleftrightarrow>
     js_includes errorStr ''NOT_INSTALLED''
     \<or> js_includes errorStr ''EXECUTABLE_CORRUPTED''
     \<or> js_includes errorStr ''SERVICE_NOT_RUNNING''
     \<or> js_includes errorStr ''not found''
     \<or> js_includes errorStr err_not_found_zh
     \<or> js_includes errorStr err_not_running_zh"

text \<open>
  The \<open>catch\<close> block, run when the awaited call rejects. When the error names an
  unavailable backend the block awaits a status check before \<open>finally\<close> runs; the
  flag returned says so, and \<open>lw_status_rechecked\<close> is the continuation.
\<close>

definition lw_searchEverything_rejected :: "string \<Rightarrow> string \<Rightarrow> lw_state \<Rightarrow> lw_state \<times> bool" where
  "lw_searchEverything_rejected searchQuery errorStr s =
     (if ref_cancelled (requests s) (currentSearchRef s)
         \<or> ref_query_differs (requests s) (currentSearchRef s) searchQuery
      then (lw_finally searchQuery s, False)
      else
        (let s' = s\<lparr>everythingResults := [], everythingTotalCount := None,
                     everythingCurrentCount := 0\<rparr>
         in if indicates_unavailable errorStr then (s', True)
            else (lw_finally searchQuery s', False)))"

definition lw_status_rechecked :: "string \<Rightarrow> status_outcome \<Rightarrow> lw_state \<Rightarrow> lw_state" where
  "lw_status_rechecked searchQuery outcome s =
     lw_finally searchQuery
       (case outcome of
          StatusResolved available err \<Rightarrow>
            s\<lparr>isEverythingAvailable := available, everythingError := error_or_null err\<rparr>
        | StatusRejected \<Rightarrow>
            s\<lparr>isEverythingAvailable := False, everythingError := Some err_recheck_failed_zh\<rparr>)"

text \<open>
  The effect on \<open>[query, isEverythingAvailable]\<close>, apart from its timer (modelled
  in the section on debouncing): for a blank query it cancels the current request and
  clears the state; otherwise it stores the detected URLs.
\<close>

definition lw_query_effect :: "string \<Rightarrow> lw_state \<Rightarrow> lw_state" where
  "lw_query_effect q s =
     (if trim q = [] then
        s\<lparr>requests := mark_cancelled (requests s) (currentSearchRef s),
          currentSearchRef := None,
          everythingResults := [], everythingTotalCount := None,
          everythingCurrentCount := 0,
          displayedResultsCount := MAX_DISPLAY_RESULTS,
          detectedUrls := [],
          isSearchingEverything := False\<rparr>
      else s\<lparr>detectedUrls := extractUrls q\<rparr>)"

text \<open>The callback of the debounce timer, as far as the disk search goes.\<close>

definition lw_timer_fired :: "string \<Rightarrow> lw_state \<Rightarrow> lw_state \<times> bool" where
  "lw_timer_fired q s =
     (if isEverythingAvailable s then lw_searchEverything_call q s else (s, False))"

text \<open>The geometry a scroll event reads from the list element, in pixels.\<close>

record scroll_event =
  scrollTop :: int
  scrollHeight :: int
  clientHeight :: int

definition isNearBottom :: "scroll_event \<Rightarrow> bool" where
  "isNearBottom e \<longleftrightarrow> scrollHeight e - scrollTop e - clientHeight e < 50"

text \<open>The \<open>onScroll\<close> handler of the result list.\<close>

definition lw_onScroll :: "scroll_event \<Rightarrow> lw_state \<Rightarrow> lw_state" where
  "lw_onScroll e s =
     (if isNearBottom e then
        (let totalCount = (case everythingTotalCount s of
                             Some t \<Rightarrow> t
                           | None \<Rightarrow> int (length (everythingResults s)));
             hasMoreEverythingResults = (totalCount > displayedResultsCount s)
         in if hasMoreEverythingResults then
              s\<lparr>shouldPreserveScrollRef := True,
                displayedResultsCount :=
                  (let prev = displayedResultsCount s;
                       next = prev + MAX_DISPLAY_RESULTS;
                       maxCount = min totalCount
                                    (if length (everythingResults s) = 0 then totalCount
                                     else int (length (everythingResults s)));
                       actualNext = min next maxCount
                   in actualNext)\<rparr>
            else s)
      else s)"

text \<open>
  The events of the launcher's disk search and the step each one takes.
  \<open>StatusChecked\<close> stands for the status checks of the other handlers of the
  component (on mount, on the user's request), which set the availability flag and
  the error text.
\<close>

datatype lw_event =
    QueryChanged string
  | TimerFired string
  | BatchArrived batch_event
  | CallResolved string search_response
  | CallRejected string string
  | StatusRechecked string status_outcome
  | StatusChecked bool "string option"
  | Scrolled scroll_event

fun lw_step :: "lw_state \<Rightarrow> lw_event \<Rightarrow> lw_state" where
  "lw_step s (QueryChanged q) = lw_query_effect q s"
| "lw_step s (TimerFired q) = fst (lw_timer_fired q s)"
| "lw_step s (BatchArrived b) = lw_batch_listener b s"
| "lw_step s (CallResolved q r) = lw_searchEverything_resolved q r s"
| "lw_step s (CallRejected q e) = fst (lw_searchEverything_rejected q e s)"
| "lw_step s (StatusRechecked q out) = lw_status_rechecked q out s"
| "lw_step s (StatusChecked available err) =
     s\<lparr>isEverythingAvailable := available, everythingError := err\<rparr>"
| "lw_step s (Scrolled e) = lw_onScroll e s"

definition lw_run :: "lw_event list \<Rightarrow> lw_state" where
  "lw_run evs = foldl lw_step lw_initial evs"

section \<open>EverythingSearchWindow: events\<close>

text \<open>The effect on the query of the search window, apart from its timer: a blank query
  clears the results without touching the current request.\<close>

definition esw_query_effect :: "string \<Rightarrow> esw_state \<Rightarrow> esw_state" where
  "esw_query_effect q s =
     (if trim q = [] then
        s\<lparr>results := [], totalCount := None, currentCount := 0, isSearching := False\<rparr>
      else s)"

datatype esw_event =
    EQueryChanged string
  | ETimerFired string
  | EBatchArrived batch_event
  | ECallResolved string search_response
  | ECallRejected string string
  | EStatusRechecked string status_outcome
  | EStatusChecked bool "string option"

fun esw_step :: "esw_state \<Rightarrow> esw_event \<Rightarrow> esw_state" where
  "esw_step s (EQueryChanged q) = esw_query_effect q s"
| "esw_step s (ETimerFired q) = fst (esw_searchEverything_call q s)"
| "esw_step s (EBatchArrived b) = esw_batch_listener b s"
| "esw_step s (ECallResolved q r) = esw_searchEverything_resolved q r s"
| "esw_step s (ECallRejected q e) = fst (esw_searchEverything_rejected q e s)"
| "esw_step s (EStatusRechecked q out) = esw_status_rechecked q out s"
| "esw_step s (EStatusChecked available err) =
     s\<lparr>esw_isEverythingAvailable := available, esw_everythingError := err\<rparr>"

definition esw_run :: "esw_event list \<Rightarrow> esw_state" where
  "esw_run evs = foldl esw_step esw_initial evs"

section \<open>Debounced dispatch\<close>

text \<open>
  Both windows debounce with \<open>setTimeout\<close> in an effect on the query. Every call of
  \<open>setTimeout\<close> adds a timer of its own, with a fresh id, to the timers that are
  pending; a timer leaves them when it runs or when \<open>clearTimeout\<close> is called with
  its id. Time is in milliseconds. A timer holds the time it is due and the query its
  callback will search for.
\<close>

record timer =
  timer_id :: nat
  due :: nat
  timer_query :: string

definition clearTimeout :: "nat \<Rightarrow> timer list \<Rightarrow> timer list" where
  "clearTimeout i timers = filter (\<lambda>tm. timer_id tm \<noteq> i) timers"

text \<open>
  The launcher with its timers. \<open>lw_cleanup\<close> is the cleanup function the last run of
  the effect returned: \<open>() => clearTimeout(timeoutId)\<close> with the id in its closure, or
  none when that run returned early. \<open>lw_committed\<close> lists the queries the timer
  callbacks that ran were called with: one entry stands for the calls
  \<open>searchApplications\<close>, \<open>searchFileHistory\<close> and (when the backend is available)
  \<open>searchEverything\<close>.
\<close>

record lw_debounce =
  lw_component :: lw_state
  lw_timers :: "timer list"
  lw_next_id :: nat
  lw_cleanup :: "nat option"
  lw_committed :: "string list"

definition lw_debounce_start :: "lw_state \<Rightarrow> lw_debounce" where
  "lw_debounce_start c =
     \<lparr>lw_component = c, lw_timers = [], lw_next_id = 1, lw_cleanup = None, lw_committed = []\<rparr>"

text \<open>A timer runs: it leaves the pending timers and its callback is called.\<close>

definition lw_fire :: "timer \<Rightarrow> lw_debounce \<Rightarrow> lw_debounce" where
  "lw_fire tm s =
     s\<lparr>lw_timers := clearTimeout (timer_id tm) (lw_timers s),
       lw_component := fst (lw_timer_fired (timer_query tm) (lw_component s)),
       lw_committed := lw_committed s @ [timer_query tm]\<rparr>"

text \<open>The timers due at time \<open>now\<close> run, the earliest first.\<close>

definition lw_timers_run :: "nat \<Rightarrow> lw_debounce \<Rightarrow> lw_debounce" where
  "lw_timers_run now s =
     fold lw_fire (sort_key due (filter (\<lambda>tm. due tm \<le> now) (lw_timers s))) s"

text \<open>
  The query changes to \<open>q\<close> at time \<open>now\<close>: the cleanup of the previous run of the
  effect, then the effect. A blank query clears the state and returns without a timer
  and without a cleanup; any other query sets a timer of 500 ms and returns the cleanup
  that clears it.
\<close>

definition lw_query_changed :: "nat \<Rightarrow> string \<Rightarrow> lw_debounce \<Rightarrow> lw_debounce" where
  "lw_query_changed now q s =
     (let s1 = lw_timers_run now s;
          s2 = (case lw_cleanup s1 of
                  None \<Rightarrow> s1
                | Some timeoutId \<Rightarrow> s1\<lparr>lw_timers := clearTimeout timeoutId (lw_timers s1)\<rparr>);
          s3 = s2\<lparr>lw_component := lw_query_effect q (lw_component s2)\<rparr>
      in if trim q = [] then s3\<lparr>lw_cleanup := None\<rparr>
         else s3\<lparr>lw_timers := lw_timers s3
                      @ [\<lparr>timer_id = lw_next_id s3, due = now + 500, timer_query = q\<rparr>],
                  lw_next_id := Suc (lw_next_id s3),
                  lw_cleanup := Some (lw_next_id s3)\<rparr>)"

definition lw_changes :: "(nat \<times> string) list \<Rightarrow> lw_debounce \<Rightarrow> lw_debounce" where
  "lw_changes changes s = foldl (\<lambda>s (t, q). lw_query_changed t q s) s changes"

text \<open>Enough time passes for every pending timer to run.\<close>

definition lw_settle :: "lw_debounce \<Rightarrow> lw_debounce" where
  "lw_settle s = fold lw_fire (sort_key due (lw_timers s)) s"














section \<open>Keyboard navigation (keyboardUtils)\<close>

text \<open>
  The options of \<open>handleKeyDown\<close>: the states it reads, with the values its setters
  write, and the refs. The text input is \<open>inputRef.current\<close>;
  \<open>inputIsActiveElement\<close> is \<open>document.activeElement === inputRef.current\<close>.
  Indices are JavaScript numbers, so they are integers here and \<open>null\<close> is \<open>None\<close>.
\<close>

record input_element =
  input_value :: string
  selectionStart :: "nat option"
  selectionEnd :: "nat option"

record key_event =
  key :: string
  keyCode :: int

record 'r nav_state =
  nav_query :: string
  contextMenu :: "(int \<times> int \<times> 'r) option"
  errorMessage :: "string option"
  isPluginListModalOpen :: bool
  isMemoModalOpen :: bool
  isRemarkModalOpen :: bool
  editingRemarkUrl :: "string option"
  remarkText :: string
  pastedImageDataUrl :: "string option"
  pastedImagePath :: "string option"
  selectedHorizontalIndex :: "int option"
  selectedVerticalIndex :: "int option"
  nav_results :: "'r list"
  horizontalResults :: "'r list"
  verticalResults :: "'r list"
  inputRef :: "input_element option"
  inputIsActiveElement :: bool
  isHorizontalNavigationRef :: bool
  justJumpedToVerticalRef :: bool
  horizontalResultsRef :: "'r list"
  currentLoadResultsRef :: "'r list"

text \<open>
  What \<open>handleKeyDown\<close> does besides writing state: the methods of the event it
  calls, the callbacks of its options it invokes, and the timers it sets.
\<close>

datatype 'r nav_effect =
    PreventDefault
  | StopPropagation
  | HideLauncherAndResetState bool
  | HideLauncherAndResetStateAfter nat
  | ResetMemoState
  | HandleLaunch 'r
  | ClearJustJumpedAfter nat
  | ClearHorizontalNavigationAfter nat

text \<open>A string or \<open>null\<close> as a condition: \<open>null\<close> and the empty string are false.\<close>

definition truthy :: "string option \<Rightarrow> bool" where
  "truthy x = (case x of None \<Rightarrow> False | Some m \<Rightarrow> m \<noteq> [])"

text \<open>
  Modelled from the spec: \<open>resultUtils.ts\<close>, which defines the four helpers that
  follow, is not among the sources. Its test file is, and fixes what each helper
  passes to the setters and writes to the refs it is given.
\<close>

definition resetSelectedIndices :: "'r nav_state \<Rightarrow> 'r nav_state" where
  "resetSelectedIndices s = s\<lparr>selectedHorizontalIndex := None, selectedVerticalIndex := None\<rparr>"

definition selectFirstHorizontal :: "'r nav_state \<Rightarrow> 'r nav_state" where
  "selectFirstHorizontal s = s\<lparr>selectedHorizontalIndex := Some 0, selectedVerticalIndex := None\<rparr>"

definition selectFirstVertical :: "'r nav_state \<Rightarrow> 'r nav_state" where
  "selectFirstVertical s = s\<lparr>selectedHorizontalIndex := None, selectedVerticalIndex := Some 0\<rparr>"

definition clearAllResults :: "'r nav_state \<Rightarrow> 'r nav_state" where
  "clearAllResults s =
     s\<lparr>nav_results := [], horizontalResults := [], verticalResults := [],
       selectedHorizontalIndex := None, selectedVerticalIndex := None,
       horizontalResultsRef := [], currentLoadResultsRef := []\<rparr>"

text \<open>\<open>inputRef.current.focus()\<close> and \<open>setSelectionRange(length, length)\<close>, when the
  input is mounted.\<close>

definition focus_input_at_end :: "'r nav_state \<Rightarrow> 'r nav_state" where
  "focus_input_at_end s =
     (case inputRef s of
        None \<Rightarrow> s
      | Some el \<Rightarrow>
          s\<lparr>inputRef := Some (el\<lparr>selectionStart := Some (length (input_value el)),
                                  selectionEnd := Some (length (input_value el))\<rparr>),
            inputIsActiveElement := True\<rparr>)"

text \<open>\<open>xs[i]\<close> for an index that may be out of range (\<open>undefined\<close> is \<open>None\<close>).\<close>

definition js_index :: "'a list \<Rightarrow> int \<Rightarrow> 'a option" where
  "js_index xs i = (if 0 \<le> i \<and> i < int (length xs) then Some (xs ! nat i) else None)"

definition key_Escape :: "'r nav_state \<Rightarrow> 'r nav_state \<times> 'r nav_effect list" where
  "key_Escape s =
     (if contextMenu s \<noteq> None then
        (s\<lparr>contextMenu := None\<rparr>, [PreventDefault, StopPropagation])
      else if truthy (errorMessage s) then
        (s\<lparr>errorMessage := None\<rparr>, [PreventDefault, StopPropagation])
      else if isPluginListModalOpen s then
        (s\<lparr>isPluginListModalOpen := False\<rparr>,
         [PreventDefault, StopPropagation, HideLauncherAndResetStateAfter 100])
      else if isMemoModalOpen s then
        (s, [PreventDefault, StopPropagation, ResetMemoState, HideLauncherAndResetStateAfter 100])
      else if isRemarkModalOpen s then
        (s\<lparr>isRemarkModalOpen := False, editingRemarkUrl := None, remarkText := []\<rparr>,
         [PreventDefault, StopPropagation])
      else (s, [PreventDefault, StopPropagation, HideLauncherAndResetState True]))"

definition key_ArrowDown :: "'r nav_state \<Rightarrow> 'r nav_state \<times> 'r nav_effect list" where
  "key_ArrowDown s =
     (let isInputFocused = inputIsActiveElement s
      in if selectedHorizontalIndex s \<noteq> None then
           (if length (verticalResults s) > 0 then
              (s\<lparr>justJumpedToVerticalRef := True,
                 selectedHorizontalIndex := None,
                 selectedVerticalIndex := Some 0\<rparr>,
               [PreventDefault, ClearJustJumpedAfter 200])
            else (s, [PreventDefault]))
         else
           (case selectedVerticalIndex s of
              Some j \<Rightarrow>
                if j < int (length (verticalResults s)) - 1 then
                  (s\<lparr>isHorizontalNavigationRef := False, selectedVerticalIndex := Some (j + 1)\<rparr>,
                   [PreventDefault])
                else (s, [PreventDefault])
            | None \<Rightarrow>
                if isInputFocused \<and> length (horizontalResults s) > 0 then
                  (selectFirstHorizontal s, [PreventDefault])
                else if isInputFocused \<and> length (verticalResults s) > 0 then
                  (selectFirstVertical s, [PreventDefault])
                else (s, [PreventDefault])))"

definition key_ArrowUp :: "'r nav_state \<Rightarrow> 'r nav_state \<times> 'r nav_effect list" where
  "key_ArrowUp s =
     (if selectedHorizontalIndex s = Some 0 then
        (resetSelectedIndices (focus_input_at_end s), [PreventDefault])
      else if selectedVerticalIndex s = Some 0 then
        (if length (horizontalResults s) > 0 then (selectFirstHorizontal s, [PreventDefault])
         else (resetSelectedIndices (focus_input_at_end s), [PreventDefault]))
      else
        (case selectedVerticalIndex s of
           Some j \<Rightarrow>
             if j > 0 then
               (s\<lparr>isHorizontalNavigationRef := False, selectedVerticalIndex := Some (j - 1)\<rparr>,
                [PreventDefault])
             else
               (case selectedHorizontalIndex s of
                  Some i \<Rightarrow>
                    if i > 0 then
                      (s\<lparr>selectedHorizontalIndex := Some (i - 1), selectedVerticalIndex := None\<rparr>,
                       [PreventDefault])
                    else (s, [PreventDefault])
                | None \<Rightarrow> (s, [PreventDefault]))
         | None \<Rightarrow>
             (case selectedHorizontalIndex s of
                Some i \<Rightarrow>
                  if i > 0 then
                    (s\<lparr>selectedHorizontalIndex := Some (i - 1), selectedVerticalIndex := None\<rparr>,
                     [PreventDefault])
                  else (s, [PreventDefault])
              | None \<Rightarrow> (s, [PreventDefault]))))"

text \<open>
  ArrowLeft and ArrowRight. \<open>input_keeps_key\<close> is the first part of the branch: the
  cases in which the handler returns at once and leaves the key to the text input.
\<close>

definition input_keeps_key :: "key_event \<Rightarrow> 'r nav_state \<Rightarrow> bool" where
  "input_keeps_key e s =
     (case inputRef s of
        None \<Rightarrow> False
      | Some input \<Rightarrow>
          inputIsActiveElement s \<and>
          (let selStart = (case selectionStart input of None \<Rightarrow> 0 | Some n \<Rightarrow> n);
               selEnd = (case selectionEnd input of None \<Rightarrow> 0 | Some n \<Rightarrow> n);
               valueLength = length (input_value input)
           in selStart \<noteq> selEnd
              \<or> (key e = ''ArrowLeft''
                  \<and> \<not> (selectedHorizontalIndex s \<noteq> None \<and> selectedHorizontalIndex s \<noteq> Some 0))
              \<or> (key e = ''ArrowRight'' \<and> selEnd < valueLength)))"

definition key_ArrowLeftRight :: "key_event \<Rightarrow> 'r nav_state \<Rightarrow> 'r nav_state \<times> 'r nav_effect list" where
  "key_ArrowLeftRight e s =
     (if input_keeps_key e s then (s, [])
      else if length (horizontalResults s) = 0 then (s, [PreventDefault, StopPropagation])
      else
        (let n = int (length (horizontalResults s));
             s1 = s\<lparr>isHorizontalNavigationRef := True\<rparr>
         in case selectedHorizontalIndex s of
              Some i \<Rightarrow>
                if key e = ''ArrowRight'' then
                  (s1\<lparr>selectedHorizontalIndex := Some (if i < n - 1 then i + 1 else 0),
                      selectedVerticalIndex := None\<rparr>,
                   [PreventDefault, StopPropagation, ClearHorizontalNavigationAfter 0])
                else if i = 0 then
                  (s1\<lparr>selectedHorizontalIndex := Some (n - 1), selectedVerticalIndex := None\<rparr>,
                   [PreventDefault, StopPropagation])
                else
                  (s1\<lparr>selectedHorizontalIndex := Some (if i > 0 then i - 1 else n - 1),
                      selectedVerticalIndex := None\<rparr>,
                   [PreventDefault, StopPropagation, ClearHorizontalNavigationAfter 0])
            | None \<Rightarrow>
                if key e = ''ArrowRight'' then
                  (s1\<lparr>selectedHorizontalIndex := Some 0, selectedVerticalIndex := None\<rparr>,
                   [PreventDefault, StopPropagation, ClearHorizontalNavigationAfter 0])
                else
                  (s1\<lparr>selectedHorizontalIndex := Some (n - 1), selectedVerticalIndex := None\<rparr>,
                   [PreventDefault, StopPropagation, ClearHorizontalNavigationAfter 0])))"

definition key_Enter :: "'r nav_state \<Rightarrow> 'r nav_state \<times> 'r nav_effect list" where
  "key_Enter s =
     (let fromHorizontal = (case selectedHorizontalIndex s of
                              None \<Rightarrow> None
                            | Some i \<Rightarrow> js_index (horizontalResults s) i);
          selectedResult = (case fromHorizontal of
                              Some r \<Rightarrow> Some r
                            | None \<Rightarrow>
                                (case selectedVerticalIndex s of
                                   None \<Rightarrow> None
                                 | Some j \<Rightarrow> js_index (verticalResults s) j))
      in (s, PreventDefault # (case selectedResult of None \<Rightarrow> [] | Some r \<Rightarrow> [HandleLaunch r])))"

definition handleKeyDown :: "key_event \<Rightarrow> 'r nav_state \<Rightarrow> 'r nav_state \<times> 'r nav_effect list" where
  "handleKeyDown e s =
     (if key e = ''Escape'' \<or> keyCode e = 27 then key_Escape s
      else if key e = ''Backspace'' \<and> nav_query s = [] \<and> truthy (pastedImageDataUrl s) then
        (clearAllResults (s\<lparr>pastedImageDataUrl := None, pastedImagePath := None\<rparr>),
         [PreventDefault])
      else if key e = ''ArrowDown'' then key_ArrowDown s
      else if key e = ''ArrowUp'' then key_ArrowUp s
      else if key e = ''ArrowLeft'' \<or> key e = ''ArrowRight'' then key_ArrowLeftRight e s
      else if key e = ''Enter'' then key_Enter s
      else (s, []))"

text \<open>A sequence of key presses over unchanged result lists.\<close>

definition press_keys :: "key_event list \<Rightarrow> 'r nav_state \<Rightarrow> 'r nav_state" where
  "press_keys es s = foldl (\<lambda>s e. fst (handleKeyDown e s)) s es"

text \<open>The selection invariant: at most one index is set, and an index that is set
  addresses an element of its list.\<close>

definition index_in_range :: "int option \<Rightarrow> nat \<Rightarrow> bool" where
  "index_in_range ix n = (case ix of None \<Rightarrow> True | Some i \<Rightarrow> 0 \<le> i \<and> i < int n)"

definition nav_inv :: "'r nav_state \<Rightarrow> bool" where
  "nav_inv s \<longleftrightarrow>
     (selectedHorizontalIndex s = None \<or> selectedVerticalIndex s = None)
     \<and> index_in_range (selectedHorizontalIndex s) (length (horizontalResults s))
     \<and> index_in_range (selectedVerticalIndex s) (length (verticalResults s))"

text \<open>The display window never shows more than the results held, once there are any.\<close>

definition lw_window_inv :: "lw_state \<Rightarrow> bool" where
  "lw_window_inv s \<longleftrightarrow>
     length (everythingResults s) = 0
     \<or> displayedResultsCount s \<le> int (length (everythingResults s))"

text \<open>The count the scroll handler compares with: \<open>everythingTotalCount ??
  everythingResults.length\<close>.\<close>

definition known_total :: "lw_state \<Rightarrow> int" where
  "known_total s =
     (case everythingTotalCount s of
        Some t \<Rightarrow> t
      | None \<Rightarrow> int (length (everythingResults s)))"

section \<open>Sample data for the concrete runs\<close>

definition file_a :: EverythingResult where
  "file_a = \<lparr>path = ''C:/docs/a.txt'', name = ''a.txt''\<rparr>"

definition file_b :: EverythingResult where
  "file_b = \<lparr>path = ''C:/docs/b.txt'', name = ''b.txt''\<rparr>"

definition file_n :: "nat \<Rightarrow> EverythingResult" where
  "file_n k = \<lparr>path = replicate k CHR ''x'', name = ''x''\<rparr>"

definition near_bottom :: scroll_event where
  "near_bottom = \<lparr>scrollTop = 960, scrollHeight = 1344, clientHeight = 384\<rparr>"

definition response_1200 :: search_response where
  "response_1200 = \<lparr>response_results = map file_n [0..<1200], response_total_count = 1200\<rparr>"

definition response_600_of_2000 :: search_response where
  "response_600_of_2000 = \<lparr>response_results = map file_n [0..<600], response_total_count = 2000\<rparr>"

definition progress_batch :: "int \<Rightarrow> int \<Rightarrow> batch_event" where
  "progress_batch tc cc =
     \<lparr>batch_results = [], batch_total_count = tc, batch_current_count = cc\<rparr>"

text \<open>Three quick-launch entries and five detailed results, the third quick-launch
  entry selected, the text input mounted and focused with the caret at the end.\<close>

definition nav_sample :: "string nav_state" where
  "nav_sample =
     \<lparr>nav_query = ''chr'', contextMenu = None, errorMessage = None,
      isPluginListModalOpen = False, isMemoModalOpen = False, isRemarkModalOpen = False,
      editingRemarkUrl = None, remarkText = [], pastedImageDataUrl = None,
      pastedImagePath = None,
      selectedHorizontalIndex = Some 2, selectedVerticalIndex = None,
      nav_results = [''h0'', ''h1'', ''h2'', ''v0'', ''v1'', ''v2'', ''v3'', ''v4''],
      horizontalResults = [''h0'', ''h1'', ''h2''],
      verticalResults = [''v0'', ''v1'', ''v2'', ''v3'', ''v4''],
      inputRef = Some \<lparr>input_value = ''chr'', selectionStart = Some 3, selectionEnd = Some 3\<rparr>,
      inputIsActiveElement = True,
      isHorizontalNavigationRef = False, justJumpedToVerticalRef = False,
      horizontalResultsRef = [''h0'', ''h1'', ''h2''],
      currentLoadResultsRef = []\<rparr>"

text \<open>The launcher and the search window with the backend found available on mount.\<close>

definition lw_available :: lw_state where
  "lw_available = lw_run [StatusChecked True None]"


definition key_press :: "string \<Rightarrow> int \<Rightarrow> key_event" where
  "key_press k c = \<lparr>key = k, keyCode = c\<rparr>"

section \<open>Properties of the streaming accumulation\<close>

subsection \<open>Merging a batch (C4)\<close>









subsection \<open>The final response (C1)\<close>

lemma filter_unseen_update:
  "filter (\<lambda>x. path x \<noteq> path r) (filter (\<lambda>x. seen (path x) = None) rs)
     = filter (\<lambda>x. (seen(path r \<mapsto> r)) (path x) = None) rs"
  by (induction rs) auto

lemma uniqueResults_loop_eq:
  "uniqueResults_loop rs seen acc =
     acc @ dedup_by_path (filter (\<lambda>r. seen (path r) = None) rs)"
proof (induction rs arbitrary: seen acc)
  case Nil
  then show ?case by simp
next
  case (Cons r rs)
  show ?case
  proof (cases "seen (path r) = None")
    case True
    have "uniqueResults_loop (r # rs) seen acc
            = uniqueResults_loop rs (seen(path r \<mapsto> r)) (acc @ [r])"
      using True by simp
    also have "\<dots> = (acc @ [r])
            @ dedup_by_path (filter (\<lambda>x. (seen(path r \<mapsto> r)) (path x) = None) rs)"
      by (rule Cons.IH)
    also have "\<dots> = acc @ dedup_by_path (r # filter (\<lambda>x. seen (path x) = None) rs)"
      by (simp only: filter_unseen_update [symmetric] dedup_by_path.simps append_assoc
            append_Cons append_Nil)
    also have "r # filter (\<lambda>x. seen (path x) = None) rs
            = filter (\<lambda>x. seen (path x) = None) (r # rs)"
      using True by simp
    finally show ?thesis .
  next
    case False
    then obtain y where "seen (path r) = Some y" by auto
    with Cons.IH [of seen acc] show ?thesis by simp
  qed
qed

lemma uniqueResults_eq: "uniqueResults rs = dedup_by_path rs"
  by (simp add: uniqueResults_def uniqueResults_loop_eq)

lemma dedup_by_path_set: "set (dedup_by_path rs) \<subseteq> set rs"
  by (induction rs rule: dedup_by_path.induct) auto

lemma dedup_by_path_paths: "set (map path (dedup_by_path rs)) = set (map path rs)"
  by (induction rs rule: dedup_by_path.induct) auto

lemma dedup_by_path_distinct: "distinct (map path (dedup_by_path rs))"
proof (induction rs rule: dedup_by_path.induct)
  case 1
  then show ?case by simp
next
  case (2 r rs)
  have "path r \<notin> set (map path (dedup_by_path (filter (\<lambda>x. path x \<noteq> path r) rs)))"
    by (simp only: dedup_by_path_paths) auto
  with 2 show ?case by simp
qed

lemma ref_query_is_not_differs:
  "ref_query_is heap r q \<Longrightarrow> \<not> ref_query_differs heap r q"
  by (auto simp: ref_query_is_def ref_query_differs_def split: option.splits)

lemma esw_batches_keep_ref:
  "esw_requests (foldl (\<lambda>s b. esw_batch_listener b s) s bs) = esw_requests s
   \<and> esw_currentSearchRef (foldl (\<lambda>s b. esw_batch_listener b s) s bs) = esw_currentSearchRef s"
  by (induction bs arbitrary: s) (simp_all add: esw_batch_listener_def)

lemma lw_batches_keep_ref:
  "requests (foldl (\<lambda>s b. lw_batch_listener b s) s bs) = requests s
   \<and> currentSearchRef (foldl (\<lambda>s b. lw_batch_listener b s) s bs) = currentSearchRef s"
  by (induction bs arbitrary: s) (simp_all add: lw_batch_listener_def)

lemma esw_resolved_current:
  assumes "ref_query_is (esw_requests s) (esw_currentSearchRef s) q"
      and "\<not> ref_cancelled (esw_requests s) (esw_currentSearchRef s)"
  shows "results (esw_searchEverything_resolved q r s) = dedup_by_path (response_results r)
         \<and> totalCount (esw_searchEverything_resolved q r s) = Some (response_total_count r)
         \<and> currentCount (esw_searchEverything_resolved q r s)
             = int (length (dedup_by_path (response_results r)))"
  using assms ref_query_is_not_differs [OF assms(1)]
  by (simp add: esw_searchEverything_resolved_def esw_finally_def uniqueResults_eq Let_def)

lemma lw_resolved_current:
  assumes "ref_query_is (requests s) (currentSearchRef s) q"
      and "\<not> ref_cancelled (requests s) (currentSearchRef s)"
  shows "everythingResults (lw_searchEverything_resolved q r s) = response_results r
         \<and> everythingTotalCount (lw_searchEverything_resolved q r s) = Some (response_total_count r)
         \<and> everythingCurrentCount (lw_searchEverything_resolved q r s)
             = int (length (response_results r))
         \<and> displayedResultsCount (lw_searchEverything_resolved q r s)
             = min (int (length (response_results r))) MAX_DISPLAY_RESULTS
         \<and> finalResultsSetRef (lw_searchEverything_resolved q r s)"
  using assms ref_query_is_not_differs [OF assms(1)]
  by (simp add: lw_searchEverything_resolved_def lw_finally_def)

text \<open>
  Claim C1, as the code has it. For a request that is still the current one and not
  cancelled, whatever batches arrived before: the search window replaces its
  accumulation by the response's list de-duplicated by path, the first occurrence
  winning; the launcher replaces its results by the response's list as delivered; both
  set the total to the response's count.
\<close>

theorem final_response_replaces_accumulation:
  assumes "ref_query_is (esw_requests s) (esw_currentSearchRef s) q"
      and "\<not> ref_cancelled (esw_requests s) (esw_currentSearchRef s)"
      and "ref_query_is (requests t) (currentSearchRef t) q"
      and "\<not> ref_cancelled (requests t) (currentSearchRef t)"
  shows "results (esw_searchEverything_resolved q r (foldl (\<lambda>s b. esw_batch_listener b s) s bs))
           = dedup_by_path (response_results r)
         \<and> totalCount (esw_searchEverything_resolved q r (foldl (\<lambda>s b. esw_batch_listener b s) s bs))
           = Some (response_total_count r)
         \<and> everythingResults (lw_searchEverything_resolved q r (foldl (\<lambda>s b. lw_batch_listener b s) t bs))
           = response_results r
         \<and> everythingTotalCount (lw_searchEverything_resolved q r (foldl (\<lambda>s b. lw_batch_listener b s) t bs))
           = Some (response_total_count r)"
proof -
  let ?s = "foldl (\<lambda>s b. esw_batch_listener b s) s bs"
  let ?t = "foldl (\<lambda>s b. lw_batch_listener b s) t bs"
  have s: "ref_query_is (esw_requests ?s) (esw_currentSearchRef ?s) q"
    "\<not> ref_cancelled (esw_requests ?s) (esw_currentSearchRef ?s)"
    using assms(1,2) by (simp_all add: esw_batches_keep_ref)
  have t: "ref_query_is (requests ?t) (currentSearchRef ?t) q"
    "\<not> ref_cancelled (requests ?t) (currentSearchRef ?t)"
    using assms(3,4) by (simp_all add: lw_batches_keep_ref)
  show ?thesis
    using esw_resolved_current [OF s, of r] lw_resolved_current [OF t, of r] by simp
qed

theorem final_response_replaces_accumulation_witness:
  "results (esw_searchEverything_resolved ''a''
       \<lparr>response_results = [file_a, file_b, file_a], response_total_count = 3\<rparr>
       (foldl (\<lambda>s b. esw_batch_listener b s)
          (esw_run [EStatusChecked True None, EQueryChanged ''a'', ETimerFired ''a''])
          [\<lparr>batch_results = [file_b], batch_total_count = 9, batch_current_count = 1\<rparr>]))
     = [file_a, file_b]
   \<and> everythingResults (lw_searchEverything_resolved ''a''
       \<lparr>response_results = [file_a, file_b, file_a], response_total_count = 3\<rparr>
       (foldl (\<lambda>s b. lw_batch_listener b s)
          (lw_run [StatusChecked True None, QueryChanged ''a'', TimerFired ''a''])
          [\<lparr>batch_results = [file_b], batch_total_count = 9, batch_current_count = 1\<rparr>]))
     = [file_a, file_b, file_a]
   \<and> everythingTotalCount (lw_searchEverything_resolved ''a''
       \<lparr>response_results = [file_a, file_b, file_a], response_total_count = 3\<rparr>
       (foldl (\<lambda>s b. lw_batch_listener b s)
          (lw_run [StatusChecked True None, QueryChanged ''a'', TimerFired ''a''])
          [\<lparr>batch_results = [file_b], batch_total_count = 9, batch_current_count = 1\<rparr>]))
     = Some 3"
proof -
  let ?s = "esw_run [EStatusChecked True None, EQueryChanged ''a'', ETimerFired ''a'']"
  let ?t = "lw_run [StatusChecked True None, QueryChanged ''a'', TimerFired ''a'']"
  have s1: "ref_query_is (esw_requests ?s) (esw_currentSearchRef ?s) ''a''" by code_simp
  have s2: "\<not> ref_cancelled (esw_requests ?s) (esw_currentSearchRef ?s)" by code_simp
  have t1: "ref_query_is (requests ?t) (currentSearchRef ?t) ''a''" by code_simp
  have t2: "\<not> ref_cancelled (requests ?t) (currentSearchRef ?t)" by code_simp
  show ?thesis
    using final_response_replaces_accumulation [OF s1 s2 t1 t2,
        of "\<lparr>response_results = [file_a, file_b, file_a], response_total_count = 3\<rparr>"
           "[\<lparr>batch_results = [file_b], batch_total_count = 9, batch_current_count = 1\<rparr>]"]
    by (simp add: file_a_def file_b_def)
qed

text \<open>
  Claim C1 as stated fails in the launcher: a response that lists a path twice is
  stored with both entries.
\<close>

theorem launcher_final_keeps_duplicates_counterexample:
  "everythingResults (lw_run [StatusChecked True None, QueryChanged ''a'', TimerFired ''a'',
       CallResolved ''a'' \<lparr>response_results = [file_a, file_a], response_total_count = 2\<rparr>])
     \<noteq> dedup_by_path [file_a, file_a]
   \<and> everythingResults (lw_run [StatusChecked True None, QueryChanged ''a'', TimerFired ''a'',
       CallResolved ''a'' \<lparr>response_results = [file_a, file_a], response_total_count = 2\<rparr>])
     = [file_a, file_a]
   \<and> dedup_by_path [file_a, file_a] = [file_a]"
  by code_simp

section \<open>Properties of the launcher's display window and of cancellation\<close>

subsection \<open>Monotonicity of the display window (C3)\<close>

lemmas lw_defs = trim_def js_whitespace_def lw_run_def lw_initial_def lw_timer_fired_def lw_searchEverything_call_def
  lw_searchEverything_resolved_def lw_searchEverything_rejected_def lw_finally_def
  lw_batch_listener_def lw_onScroll_def lw_query_effect_def
  ref_cancelled_def ref_query_is_def ref_query_differs_def deref_def mark_cancelled_def
  MAX_DISPLAY_RESULTS_def isNearBottom_def near_bottom_def progress_batch_def Let_def

lemma lw_run_snoc: "lw_run (evs @ [e]) = lw_step (lw_run evs) e"
  by (simp add: lw_run_def)

lemma lw_finally_window [simp]:
  "everythingResults (lw_finally q s) = everythingResults s"
  "displayedResultsCount (lw_finally q s) = displayedResultsCount s"
  "everythingTotalCount (lw_finally q s) = everythingTotalCount s"
  "everythingCurrentCount (lw_finally q s) = everythingCurrentCount s"
  by (simp_all add: lw_finally_def)

lemma lw_onScroll_results [simp]: "everythingResults (lw_onScroll e s) = everythingResults s"
  by (simp add: lw_onScroll_def Let_def)

lemma lw_onScroll_value:
  "displayedResultsCount (lw_onScroll e s) =
     (if isNearBottom e \<and> known_total s > displayedResultsCount s
      then min (displayedResultsCount s + MAX_DISPLAY_RESULTS)
             (min (known_total s)
                (if length (everythingResults s) = 0 then known_total s
                 else int (length (everythingResults s))))
      else displayedResultsCount s)"
  by (simp add: lw_onScroll_def known_total_def Let_def)

lemma lw_onScroll_mono:
  assumes "lw_window_inv s"
  shows "displayedResultsCount s \<le> displayedResultsCount (lw_onScroll e s)"
  using assms unfolding lw_onScroll_value lw_window_inv_def MAX_DISPLAY_RESULTS_def
  by (auto simp: min_def)

lemma lw_onScroll_inv:
  assumes "lw_window_inv s"
  shows "lw_window_inv (lw_onScroll e s)"
  using assms unfolding lw_window_inv_def lw_onScroll_results lw_onScroll_value
  by (auto simp: min_def)

lemma lw_step_inv:
  assumes "lw_window_inv s"
  shows "lw_window_inv (lw_step s e)"
proof (cases e)
  case (Scrolled x)
  then show ?thesis using lw_onScroll_inv [OF assms] by simp
next
  case (QueryChanged q)
  then show ?thesis using assms by (simp add: lw_query_effect_def lw_window_inv_def)
next
  case (TimerFired q)
  then show ?thesis using assms
    by (simp add: lw_timer_fired_def lw_searchEverything_call_def lw_window_inv_def Let_def)
next
  case (BatchArrived b)
  then show ?thesis using assms by (simp add: lw_batch_listener_def lw_window_inv_def)
next
  case (CallResolved q r)
  then show ?thesis using assms
    by (simp add: lw_searchEverything_resolved_def lw_window_inv_def)
next
  case (CallRejected q err)
  then show ?thesis using assms
    by (simp add: lw_searchEverything_rejected_def lw_window_inv_def Let_def)
next
  case (StatusRechecked q out)
  then show ?thesis using assms
    by (cases out) (simp_all add: lw_status_rechecked_def lw_window_inv_def)
next
  case (StatusChecked a er)
  then show ?thesis using assms by (simp add: lw_window_inv_def)
qed

lemma lw_run_inv: "lw_window_inv (lw_run evs)"
proof (induction evs rule: rev_induct)
  case Nil
  then show ?case by (simp add: lw_run_def lw_initial_def lw_window_inv_def)
next
  case (snoc e evs)
  then show ?case by (simp add: lw_run_snoc lw_step_inv)
qed

text \<open>
  Claim C3, as the code has it. In every state the launcher reaches, a scroll event
  never lowers the capacity, and a batch event, a rejected call and a status check
  leave it as it is. The final response of the current request sets it to the
  smaller of the number of results and 500; a committed search on an available
  backend and a blank query reset it to 500.
\<close>

theorem display_window_capacity_changes:
  "displayedResultsCount (lw_run evs) \<le> displayedResultsCount (lw_step (lw_run evs) (Scrolled e))
   \<and> displayedResultsCount (lw_step (lw_run evs) (BatchArrived b))
       = displayedResultsCount (lw_run evs)
   \<and> displayedResultsCount (lw_step (lw_run evs) (CallRejected q err))
       = displayedResultsCount (lw_run evs)
   \<and> displayedResultsCount (lw_step (lw_run evs) (StatusRechecked q out))
       = displayedResultsCount (lw_run evs)
   \<and> displayedResultsCount (lw_step (lw_run evs) (StatusChecked available er))
       = displayedResultsCount (lw_run evs)
   \<and> displayedResultsCount (lw_step (lw_run evs) (CallResolved q r))
       = (if ref_cancelled (requests (lw_run evs)) (currentSearchRef (lw_run evs))
             \<or> ref_query_differs (requests (lw_run evs)) (currentSearchRef (lw_run evs)) q
          then displayedResultsCount (lw_run evs)
          else min (int (length (response_results r))) MAX_DISPLAY_RESULTS)
   \<and> displayedResultsCount (lw_step (lw_run evs) (TimerFired q))
       = (if isEverythingAvailable (lw_run evs) then MAX_DISPLAY_RESULTS
          else displayedResultsCount (lw_run evs))
   \<and> displayedResultsCount (lw_step (lw_run evs) (QueryChanged q))
       = (if trim q = [] then MAX_DISPLAY_RESULTS else displayedResultsCount (lw_run evs))"
proof -
  let ?s = "lw_run evs"
  have "displayedResultsCount ?s \<le> displayedResultsCount (lw_step ?s (Scrolled e))"
    using lw_onScroll_mono [OF lw_run_inv] by simp
  moreover have "displayedResultsCount (lw_step ?s (BatchArrived b)) = displayedResultsCount ?s"
    by (simp add: lw_batch_listener_def)
  moreover have "displayedResultsCount (lw_step ?s (CallRejected q err)) = displayedResultsCount ?s"
    by (simp add: lw_searchEverything_rejected_def Let_def)
  moreover have "displayedResultsCount (lw_step ?s (StatusRechecked q out)) = displayedResultsCount ?s"
    by (cases out) (simp_all add: lw_status_rechecked_def)
  moreover have "displayedResultsCount (lw_step ?s (StatusChecked available er)) = displayedResultsCount ?s"
    by simp
  moreover have "displayedResultsCount (lw_step ?s (CallResolved q r))
       = (if ref_cancelled (requests ?s) (currentSearchRef ?s)
             \<or> ref_query_differs (requests ?s) (currentSearchRef ?s) q
          then displayedResultsCount ?s
          else min (int (length (response_results r))) MAX_DISPLAY_RESULTS)"
    by (simp add: lw_searchEverything_resolved_def)
  moreover have "displayedResultsCount (lw_step ?s (TimerFired q))
       = (if isEverythingAvailable ?s then MAX_DISPLAY_RESULTS else displayedResultsCount ?s)"
    by (simp add: lw_timer_fired_def lw_searchEverything_call_def Let_def)
  moreover have "displayedResultsCount (lw_step ?s (QueryChanged q))
       = (if trim q = [] then MAX_DISPLAY_RESULTS else displayedResultsCount ?s)"
    by (simp add: lw_query_effect_def)
  ultimately show ?thesis by blast
qed

theorem display_window_capacity_changes_witness:
  "displayedResultsCount
      (lw_run [StatusChecked True None, QueryChanged ''a'', TimerFired ''a'', BatchArrived (progress_batch 1200 100)])
     \<le> displayedResultsCount
      (lw_step
        (lw_run [StatusChecked True None, QueryChanged ''a'', TimerFired ''a'', BatchArrived (progress_batch 1200 100)])
        (Scrolled near_bottom))
   \<and> displayedResultsCount
      (lw_step
        (lw_run [StatusChecked True None, QueryChanged ''a'', TimerFired ''a'', BatchArrived (progress_batch 1200 100)])
        (Scrolled near_bottom)) = 1000"
  using display_window_capacity_changes
    [of "[StatusChecked True None, QueryChanged ''a'', TimerFired ''a'',
          BatchArrived (progress_batch 1200 100)]"
        near_bottom]
  by (simp add: lw_defs)

text \<open>
  Claim C3 as stated fails when the final response arrives: the handler sets the
  capacity to the smaller of the number of results and 500. Here a batch announces
  1200 hits, a scroll near the bottom raises the capacity to 1000, and the final
  response of the same query brings it back to 500.
\<close>

theorem final_response_lowers_capacity_counterexample:
  "displayedResultsCount
      (lw_run [StatusChecked True None, QueryChanged ''a'', TimerFired ''a'', BatchArrived (progress_batch 1200 100),
               Scrolled near_bottom]) = 1000
   \<and> displayedResultsCount
      (lw_run [StatusChecked True None, QueryChanged ''a'', TimerFired ''a'', BatchArrived (progress_batch 1200 100),
               Scrolled near_bottom, CallResolved ''a'' response_1200]) = 500
   \<and> displayedResultsCount
      (lw_run [StatusChecked True None, QueryChanged ''a'', TimerFired ''a'', BatchArrived (progress_batch 1200 100),
               Scrolled near_bottom, CallResolved ''a'' response_1200])
     < displayedResultsCount
      (lw_run [StatusChecked True None, QueryChanged ''a'', TimerFired ''a'', BatchArrived (progress_batch 1200 100),
               Scrolled near_bottom])"
  by (simp add: lw_defs response_1200_def)

subsection \<open>Growth of the display window (C6)\<close>

text \<open>
  Claim C6, as the code has it. A committed search sets the capacity to 500 when the
  backend is available and leaves it otherwise; a blank query sets it to 500. A scroll
  event near the bottom, with the known total above the capacity, sets the capacity to
  the smallest of: the capacity plus 500, the known total, and the number of results
  held when there are any. So the capacity grows by at most 500, never beyond the
  known total nor beyond the results held, and in a state the launcher reaches it
  does not shrink; any other scroll event leaves it. With 1200 results the capacity is
  500, then 1000 after one such event and 1200 after a second.
\<close>

theorem display_window_growth:
  "displayedResultsCount (fst (lw_searchEverything_call q s))
     = (if isEverythingAvailable s then 500 else displayedResultsCount s)
   \<and> (trim q = [] \<longrightarrow> displayedResultsCount (lw_query_effect q s) = 500)
   \<and> displayedResultsCount (lw_onScroll e s)
       = (if isNearBottom e \<and> known_total s > displayedResultsCount s
          then min (displayedResultsCount s + 500)
                 (min (known_total s)
                    (if length (everythingResults s) = 0 then known_total s
                     else int (length (everythingResults s))))
          else displayedResultsCount s)
   \<and> (isNearBottom e \<and> known_total s > displayedResultsCount s \<longrightarrow>
        displayedResultsCount (lw_onScroll e s) \<le> displayedResultsCount s + 500
        \<and> displayedResultsCount (lw_onScroll e s) \<le> known_total s
        \<and> (length (everythingResults s) \<noteq> 0 \<longrightarrow>
              displayedResultsCount (lw_onScroll e s) \<le> int (length (everythingResults s))))
   \<and> displayedResultsCount (lw_run evs) \<le> displayedResultsCount (lw_onScroll e (lw_run evs))
   \<and> displayedResultsCount
        (lw_run [StatusChecked True None, QueryChanged ''a'', TimerFired ''a'',
                 CallResolved ''a'' response_1200])
       = 500
   \<and> displayedResultsCount
        (lw_run [StatusChecked True None, QueryChanged ''a'', TimerFired ''a'',
                 CallResolved ''a'' response_1200, Scrolled near_bottom])
       = 1000
   \<and> displayedResultsCount
        (lw_run [StatusChecked True None, QueryChanged ''a'', TimerFired ''a'',
                 CallResolved ''a'' response_1200, Scrolled near_bottom, Scrolled near_bottom])
       = 1200"
proof -
  have "displayedResultsCount (fst (lw_searchEverything_call q s))
     = (if isEverythingAvailable s then 500 else displayedResultsCount s)"
    by (simp add: lw_searchEverything_call_def MAX_DISPLAY_RESULTS_def Let_def)
  moreover have "trim q = [] \<longrightarrow> displayedResultsCount (lw_query_effect q s) = 500"
    by (simp add: lw_query_effect_def MAX_DISPLAY_RESULTS_def)
  moreover have v: "displayedResultsCount (lw_onScroll e s)
       = (if isNearBottom e \<and> known_total s > displayedResultsCount s
          then min (displayedResultsCount s + 500)
                 (min (known_total s)
                    (if length (everythingResults s) = 0 then known_total s
                     else int (length (everythingResults s))))
          else displayedResultsCount s)"
    by (simp add: lw_onScroll_value MAX_DISPLAY_RESULTS_def)
  moreover have "isNearBottom e \<and> known_total s > displayedResultsCount s \<longrightarrow>
        displayedResultsCount (lw_onScroll e s) \<le> displayedResultsCount s + 500
        \<and> displayedResultsCount (lw_onScroll e s) \<le> known_total s
        \<and> (length (everythingResults s) \<noteq> 0 \<longrightarrow>
              displayedResultsCount (lw_onScroll e s) \<le> int (length (everythingResults s)))"
    unfolding v by (auto simp: min_def)
  moreover have "displayedResultsCount (lw_run evs)
       \<le> displayedResultsCount (lw_onScroll e (lw_run evs))"
    by (rule lw_onScroll_mono [OF lw_run_inv])
  moreover have "displayedResultsCount
        (lw_run [StatusChecked True None, QueryChanged ''a'', TimerFired ''a'',
                 CallResolved ''a'' response_1200])
       = 500"
    by (simp add: lw_defs response_1200_def)
  moreover have "displayedResultsCount
        (lw_run [StatusChecked True None, QueryChanged ''a'', TimerFired ''a'',
                 CallResolved ''a'' response_1200, Scrolled near_bottom])
       = 1000"
    by (simp add: lw_defs response_1200_def)
  moreover have "displayedResultsCount
        (lw_run [StatusChecked True None, QueryChanged ''a'', TimerFired ''a'',
                 CallResolved ''a'' response_1200, Scrolled near_bottom, Scrolled near_bottom])
       = 1200"
    by (simp add: lw_defs response_1200_def)
  ultimately show ?thesis by blast
qed

theorem display_window_growth_witness:
  "displayedResultsCount (fst (lw_searchEverything_call ''a'' lw_available)) = 500
   \<and> trim '' '' = []
   \<and> displayedResultsCount (lw_query_effect '' '' lw_available) = 500
   \<and> isNearBottom near_bottom
   \<and> known_total (lw_run [StatusChecked True None, QueryChanged ''a'', TimerFired ''a'',
         CallResolved ''a'' response_600_of_2000]) = 2000
   \<and> displayedResultsCount (lw_run [StatusChecked True None, QueryChanged ''a'',
         TimerFired ''a'', CallResolved ''a'' response_600_of_2000]) = 500
   \<and> length (everythingResults (lw_run [StatusChecked True None, QueryChanged ''a'',
         TimerFired ''a'', CallResolved ''a'' response_600_of_2000])) = 600
   \<and> displayedResultsCount (lw_onScroll near_bottom
        (lw_run [StatusChecked True None, QueryChanged ''a'', TimerFired ''a'',
           CallResolved ''a'' response_600_of_2000])) = 600"
  using display_window_growth [of "''a''" lw_available near_bottom "[]"]
    display_window_growth [of "'' ''" lw_available near_bottom "[]"]
    display_window_growth [of "''a''"
      "lw_run [StatusChecked True None, QueryChanged ''a'', TimerFired ''a'',
         CallResolved ''a'' response_600_of_2000]" near_bottom "[]"]
  by (simp add: lw_defs known_total_def lw_available_def response_600_of_2000_def)

text \<open>
  Claim C6 as stated fails when fewer results are held than the backend counted: the
  handler clamps to the smaller of the total and the results held. Here the final
  response brings 600 results of 2000; a first scroll near the bottom raises the
  capacity from 500 to 600, and at the second the total is still above the capacity,
  yet the capacity stays at 600 instead of growing by 500 up to the total.
\<close>

theorem scroll_clamped_to_results_held_counterexample:
  "isNearBottom near_bottom
   \<and> known_total (lw_run [StatusChecked True None, QueryChanged ''a'', TimerFired ''a'',
         CallResolved ''a'' response_600_of_2000, Scrolled near_bottom]) = 2000
   \<and> displayedResultsCount (lw_run [StatusChecked True None, QueryChanged ''a'',
         TimerFired ''a'', CallResolved ''a'' response_600_of_2000, Scrolled near_bottom]) = 600
   \<and> displayedResultsCount (lw_run [StatusChecked True None, QueryChanged ''a'',
         TimerFired ''a'', CallResolved ''a'' response_600_of_2000, Scrolled near_bottom,
         Scrolled near_bottom]) = 600
   \<and> displayedResultsCount (lw_run [StatusChecked True None, QueryChanged ''a'',
         TimerFired ''a'', CallResolved ''a'' response_600_of_2000, Scrolled near_bottom,
         Scrolled near_bottom]) \<noteq> min (600 + 500) 2000"
  by (simp add: lw_defs known_total_def response_600_of_2000_def)

subsection \<open>Batches after the final response (C5)\<close>

text \<open>
  Claim C5 at a concrete run. The final response sets \<open>finalResultsSetRef\<close>, the total
  2 and the current count 2; the batch listener never reads the flag, so a batch event
  that arrives afterwards overwrites both counts.
\<close>

theorem batch_after_final_overwrites_counts:
  "finalResultsSetRef (lw_run [StatusChecked True None, QueryChanged ''a'', TimerFired ''a'',
       CallResolved ''a'' \<lparr>response_results = [file_a, file_b], response_total_count = 2\<rparr>])
   \<and> everythingTotalCount (lw_run [StatusChecked True None, QueryChanged ''a'', TimerFired ''a'',
       CallResolved ''a'' \<lparr>response_results = [file_a, file_b], response_total_count = 2\<rparr>])
       = Some 2
   \<and> everythingCurrentCount (lw_run [StatusChecked True None, QueryChanged ''a'', TimerFired ''a'',
       CallResolved ''a'' \<lparr>response_results = [file_a, file_b], response_total_count = 2\<rparr>])
       = 2
   \<and> everythingTotalCount (lw_run [StatusChecked True None, QueryChanged ''a'', TimerFired ''a'',
       CallResolved ''a'' \<lparr>response_results = [file_a, file_b], response_total_count = 2\<rparr>,
       BatchArrived (progress_batch 5 1)])
       = Some 5
   \<and> everythingCurrentCount (lw_run [StatusChecked True None, QueryChanged ''a'', TimerFired ''a'',
       CallResolved ''a'' \<lparr>response_results = [file_a, file_b], response_total_count = 2\<rparr>,
       BatchArrived (progress_batch 5 1)])
       = 1"
  by (simp add: lw_defs)

text \<open>The items themselves are out of the listener's reach.\<close>

lemma lw_batch_keeps_items:
  "everythingResults (lw_batch_listener b s) = everythingResults s"
  by (simp add: lw_batch_listener_def)

subsection \<open>Superseded requests (C2)\<close>

lemmas esw_defs = esw_run_def esw_initial_def esw_searchEverything_call_def
  esw_searchEverything_resolved_def esw_searchEverything_rejected_def esw_finally_def
  esw_batch_listener_def esw_query_effect_def mergeBatch_def
  ref_cancelled_def ref_query_is_def ref_query_differs_def deref_def mark_cancelled_def
  trim_def js_whitespace_def Let_def

text \<open>
  Claim C2 at a concrete run of the search window. The search for \<open>a\<close> is superseded
  by the search for \<open>ab\<close>, whose first batch is accumulated; then the call for
  \<open>a\<close> rejects. Its \<open>catch\<close> block tests only the \<open>cancelled\<close> flag of the current
  request, which is the one for \<open>ab\<close>, and clears the results.
\<close>

theorem stale_rejection_clears_results:
  "cancelled (esw_requests (esw_run [EStatusChecked True None, EQueryChanged ''a'', ETimerFired ''a'',
       EQueryChanged ''ab'', ETimerFired ''ab'',
       EBatchArrived \<lparr>batch_results = [file_a], batch_total_count = 1, batch_current_count = 1\<rparr>])
     ! 0)
   \<and> results (esw_run [EStatusChecked True None, EQueryChanged ''a'', ETimerFired ''a'',
       EQueryChanged ''ab'', ETimerFired ''ab'',
       EBatchArrived \<lparr>batch_results = [file_a], batch_total_count = 1, batch_current_count = 1\<rparr>])
       = [file_a]
   \<and> totalCount (esw_run [EStatusChecked True None, EQueryChanged ''a'', ETimerFired ''a'',
       EQueryChanged ''ab'', ETimerFired ''ab'',
       EBatchArrived \<lparr>batch_results = [file_a], batch_total_count = 1, batch_current_count = 1\<rparr>])
       = Some 1
   \<and> results (esw_run [EStatusChecked True None, EQueryChanged ''a'', ETimerFired ''a'',
       EQueryChanged ''ab'', ETimerFired ''ab'',
       EBatchArrived \<lparr>batch_results = [file_a], batch_total_count = 1, batch_current_count = 1\<rparr>,
       ECallRejected ''a'' ''timeout''])
       = []
   \<and> totalCount (esw_run [EStatusChecked True None, EQueryChanged ''a'', ETimerFired ''a'',
       EQueryChanged ''ab'', ETimerFired ''ab'',
       EBatchArrived \<lparr>batch_results = [file_a], batch_total_count = 1, batch_current_count = 1\<rparr>,
       ECallRejected ''a'' ''timeout''])
       = None"
  by (simp add: esw_defs)

text \<open>
  In the launcher a superseded call is recognised by its query text alone: when the
  same text is committed again, the result of the cancelled call is applied.
\<close>

lemma launcher_same_query_stale_result_applied:
  "cancelled (requests (lw_run [StatusChecked True None, QueryChanged ''a'', TimerFired ''a'',
       QueryChanged ''ab'', QueryChanged ''a'', TimerFired ''a'']) ! 0)
   \<and> everythingResults (lw_run [StatusChecked True None, QueryChanged ''a'', TimerFired ''a'',
       QueryChanged ''ab'', QueryChanged ''a'', TimerFired ''a'']) = []
   \<and> everythingResults (lw_run [StatusChecked True None, QueryChanged ''a'', TimerFired ''a'',
       QueryChanged ''ab'', QueryChanged ''a'', TimerFired ''a'',
        CallResolved ''a'' \<lparr>response_results = [file_a], response_total_count = 1\<rparr>])
       = [file_a]"
  by (simp add: lw_defs)

text \<open>What does hold: a call settled while the current request is for another text
  changes nothing in the launcher, and a call resolved then changes nothing in the
  search window.\<close>

lemma ref_query_differs_not_is:
  "ref_query_differs heap r q \<Longrightarrow> \<not> ref_query_is heap r q"
  by (auto simp: ref_query_is_def ref_query_differs_def split: option.splits)

lemma lw_stale_settlement_noop:
  assumes "ref_query_differs (requests s) (currentSearchRef s) q"
  shows "lw_searchEverything_resolved q r s = s"
    and "lw_searchEverything_rejected q err s = (s, False)"
  using assms ref_query_differs_not_is [OF assms]
  by (simp_all add: lw_searchEverything_resolved_def lw_searchEverything_rejected_def
        lw_finally_def)

lemma esw_stale_resolution_noop:
  assumes "ref_query_differs (esw_requests s) (esw_currentSearchRef s) q"
  shows "esw_searchEverything_resolved q r s = s"
  using assms ref_query_differs_not_is [OF assms]
  by (simp add: esw_searchEverything_resolved_def esw_finally_def)

lemma lw_call_supersedes:
  assumes "isEverythingAvailable s" and "currentSearchRef s = Some a" and "a < length (requests s)"
      and "q2 \<noteq> q1"
  shows "cancelled (requests (fst (lw_searchEverything_call q2 s)) ! a)"
    and "ref_query_differs (requests (fst (lw_searchEverything_call q2 s)))
           (currentSearchRef (fst (lw_searchEverything_call q2 s))) q1"
  using assms
  by (simp_all add: lw_searchEverything_call_def mark_cancelled_def ref_query_differs_def
        deref_def nth_append Let_def)

section \<open>Properties of the debounced dispatch (C7)\<close>

lemma clearTimeout_single:
  "clearTimeout (timer_id tm) [tm] = []"
  by (simp add: clearTimeout_def)






















text \<open>
  Timers pend one by one: were the timer of \<open>a\<close> not cleared when the query changes
  to \<open>ab\<close>, both callbacks would run. Here the cleanup is taken away before the
  second change.
\<close>

lemma uncleared_timers_both_run:
  "lw_committed (lw_settle
     (lw_query_changed 120 ''ab''
        ((lw_query_changed 0 ''a'' (lw_debounce_start lw_available))\<lparr>lw_cleanup := None\<rparr>)))
     = [''a'', ''ab'']"
  by code_simp

text \<open>A change that comes after the window has passed finds the search committed.\<close>

lemma debounce_two_windows:
  "lw_committed (lw_settle
     (lw_changes [(0, ''a''), (700, ''ab'')] (lw_debounce_start lw_available)))
     = [''a'', ''ab'']"
  by code_simp

section \<open>Properties of the keyboard navigation (C8, C9)\<close>

lemmas nav_defs = handleKeyDown_def key_Escape_def key_ArrowDown_def key_ArrowUp_def
  key_ArrowLeftRight_def key_Enter_def clearAllResults_def resetSelectedIndices_def
  selectFirstHorizontal_def selectFirstVertical_def focus_input_at_end_def

lemmas nav_eval = nav_defs press_keys_def key_press_def nav_sample_def truthy_def
  input_keeps_key_def js_index_def Let_def

lemma focus_input_at_end_selection [simp]:
  "selectedHorizontalIndex (focus_input_at_end s) = selectedHorizontalIndex s"
  "selectedVerticalIndex (focus_input_at_end s) = selectedVerticalIndex s"
  "horizontalResults (focus_input_at_end s) = horizontalResults s"
  "verticalResults (focus_input_at_end s) = verticalResults s"
  by (simp_all add: focus_input_at_end_def split: option.splits)

lemma key_Escape_inv: "nav_inv s \<Longrightarrow> nav_inv (fst (key_Escape s))"
  by (simp add: key_Escape_def nav_inv_def)

lemma key_ArrowDown_inv: "nav_inv s \<Longrightarrow> nav_inv (fst (key_ArrowDown s))"
  by (auto simp: key_ArrowDown_def nav_inv_def index_in_range_def selectFirstHorizontal_def
        selectFirstVertical_def Let_def split: option.splits)

lemma key_ArrowUp_inv: "nav_inv s \<Longrightarrow> nav_inv (fst (key_ArrowUp s))"
  by (auto simp: key_ArrowUp_def nav_inv_def index_in_range_def selectFirstHorizontal_def
        resetSelectedIndices_def split: option.splits)

lemma key_ArrowLeftRight_inv: "nav_inv s \<Longrightarrow> nav_inv (fst (key_ArrowLeftRight e s))"
  by (auto simp: key_ArrowLeftRight_def nav_inv_def index_in_range_def Let_def
        split: option.splits)

lemma key_Enter_inv: "nav_inv s \<Longrightarrow> nav_inv (fst (key_Enter s))"
  by (simp add: key_Enter_def Let_def)

lemma clearAllResults_inv: "nav_inv (clearAllResults s)"
  by (simp add: clearAllResults_def nav_inv_def index_in_range_def)

lemma handleKeyDown_inv:
  assumes "nav_inv s"
  shows "nav_inv (fst (handleKeyDown e s))"
  using assms
  by (simp add: handleKeyDown_def key_Escape_inv key_ArrowDown_inv key_ArrowUp_inv
        key_ArrowLeftRight_inv key_Enter_inv clearAllResults_inv)

text \<open>
  Claim C8. From a state in which at most one index is set and each index that is set
  addresses an element of its list, every sequence of key presses handled by
  \<open>handleKeyDown\<close> leads to such a state: no key press produces an index out of range.
\<close>

theorem navigation_selection_invariant:
  assumes "nav_inv s"
  shows "nav_inv (press_keys es s)"
  using assms
proof (induction es arbitrary: s)
  case Nil
  then show ?case by (simp add: press_keys_def)
next
  case (Cons e es)
  have "press_keys (e # es) s = press_keys es (fst (handleKeyDown e s))"
    by (simp add: press_keys_def)
  with Cons.IH [OF handleKeyDown_inv [OF Cons.prems]] show ?case by simp
qed

theorem navigation_selection_invariant_witness:
  "nav_inv nav_sample
   \<and> nav_inv (press_keys
        [key_press ''ArrowRight'' 39, key_press ''ArrowDown'' 40, key_press ''ArrowDown'' 40,
         key_press ''ArrowLeft'' 37, key_press ''ArrowUp'' 38] nav_sample)"
proof -
  have a: "nav_inv nav_sample"
    by (simp add: nav_inv_def nav_sample_def index_in_range_def)
  from a navigation_selection_invariant [OF a] show ?thesis by simp
qed

text \<open>
  Claim C9. ArrowDown with a horizontal selection and a non-empty vertical list selects
  the first vertical result, whatever the horizontal index was. ArrowUp on the first
  vertical result selects the first horizontal result when there is one; when there is
  none it clears the selection and, the input being mounted, focuses it.
\<close>

theorem two_axis_transitions:
  "(key e = ''ArrowDown'' \<and> keyCode e \<noteq> 27 \<and> selectedHorizontalIndex s = Some i
      \<and> length (verticalResults s) > 0 \<longrightarrow>
        selectedHorizontalIndex (fst (handleKeyDown e s)) = None
        \<and> selectedVerticalIndex (fst (handleKeyDown e s)) = Some 0)
   \<and> (key e = ''ArrowUp'' \<and> keyCode e \<noteq> 27 \<and> selectedHorizontalIndex s = None
      \<and> selectedVerticalIndex s = Some 0 \<and> length (horizontalResults s) > 0 \<longrightarrow>
        selectedHorizontalIndex (fst (handleKeyDown e s)) = Some 0
        \<and> selectedVerticalIndex (fst (handleKeyDown e s)) = None)
   \<and> (key e = ''ArrowUp'' \<and> keyCode e \<noteq> 27 \<and> selectedHorizontalIndex s = None
      \<and> selectedVerticalIndex s = Some 0 \<and> length (horizontalResults s) = 0 \<longrightarrow>
        selectedHorizontalIndex (fst (handleKeyDown e s)) = None
        \<and> selectedVerticalIndex (fst (handleKeyDown e s)) = None
        \<and> (inputRef s \<noteq> None \<longrightarrow> inputIsActiveElement (fst (handleKeyDown e s))))"
  by (auto simp: nav_defs split: option.splits)

theorem two_axis_transitions_witness:
  "selectedHorizontalIndex nav_sample = Some 2
   \<and> length (horizontalResults nav_sample) = 3 \<and> length (verticalResults nav_sample) = 5
   \<and> selectedHorizontalIndex (fst (handleKeyDown (key_press ''ArrowDown'' 40) nav_sample)) = None
   \<and> selectedVerticalIndex (fst (handleKeyDown (key_press ''ArrowDown'' 40) nav_sample)) = Some 0
   \<and> selectedHorizontalIndex
        (fst (handleKeyDown (key_press ''ArrowUp'' 38)
           (fst (handleKeyDown (key_press ''ArrowDown'' 40) nav_sample)))) = Some 0
   \<and> selectedVerticalIndex
        (fst (handleKeyDown (key_press ''ArrowUp'' 38)
           (fst (handleKeyDown (key_press ''ArrowDown'' 40) nav_sample)))) = None
   \<and> selectedHorizontalIndex
        (fst (handleKeyDown (key_press ''ArrowUp'' 38)
           (nav_sample\<lparr>horizontalResults := [], selectedHorizontalIndex := None,
              selectedVerticalIndex := Some 0, inputIsActiveElement := False\<rparr>))) = None
   \<and> selectedVerticalIndex
        (fst (handleKeyDown (key_press ''ArrowUp'' 38)
           (nav_sample\<lparr>horizontalResults := [], selectedHorizontalIndex := None,
              selectedVerticalIndex := Some 0, inputIsActiveElement := False\<rparr>))) = None
   \<and> inputIsActiveElement
        (fst (handleKeyDown (key_press ''ArrowUp'' 38)
           (nav_sample\<lparr>horizontalResults := [], selectedHorizontalIndex := None,
              selectedVerticalIndex := Some 0, inputIsActiveElement := False\<rparr>)))"
  using two_axis_transitions [of "key_press ''ArrowDown'' 40" nav_sample 2]
    two_axis_transitions [of "key_press ''ArrowUp'' 38"
      "fst (handleKeyDown (key_press ''ArrowDown'' 40) nav_sample)" 0]
    two_axis_transitions [of "key_press ''ArrowUp'' 38"
      "nav_sample\<lparr>horizontalResults := [], selectedHorizontalIndex := None,
          selectedVerticalIndex := Some 0, inputIsActiveElement := False\<rparr>" 0]
  by (simp add: nav_eval)

section \<open>Properties of the URL detection (C10)\<close>

lemma has_http_scheme_iff:
  "has_http_scheme u \<longleftrightarrow> starts_with_ci ''http://'' u \<or> starts_with_ci ''https://'' u"
  by (auto simp: has_http_scheme_def match_scheme_def)

lemma https_prefix_has_scheme: "has_http_scheme (''https://'' @ url)"
  by (simp add: has_http_scheme_iff starts_with_ci_def ascii_lower_def)

lemma normalize_url_scheme:
  assumes "normalize_url m = Some u"
  shows "has_http_scheme u"
  using assms https_prefix_has_scheme
  by (auto simp: normalize_url_def Let_def split: if_splits)

lemma remove_duplicates_subset: "set (remove_duplicates self) \<subseteq> set self"
  by (auto simp: remove_duplicates_def dest: set_zip_leftD)

lemma remove_duplicates_distinct: "distinct (remove_duplicates self)"
proof -
  let ?P = "\<lambda>(url, index). indexOf self url = int index"
  let ?ps = "filter ?P (zip self [0..<length self])"
  have "distinct (zip self [0..<length self])"
    by (rule distinct_zipI2) simp
  then have d: "distinct ?ps" by simp
  have "inj_on fst (set ?ps)"
    by (rule inj_onI) auto
  with d show ?thesis
    unfolding remove_duplicates_def by (simp add: distinct_map)
qed

lemma extractUrls_elements:
  assumes "u \<in> set (extractUrls text)"
  shows "\<exists>m. normalize_url m = Some u"
proof -
  from assms have "u \<in> set (remove_duplicates
      (filter (\<lambda>url. url \<noteq> []) (List.map_filter normalize_url (match_all 0 text))))"
    by (auto simp: extractUrls_def Let_def split: if_splits)
  then have "u \<in> set (List.map_filter normalize_url (match_all 0 text))"
    using remove_duplicates_subset by fastforce
  then show ?thesis
    by (auto simp: List.map_filter_def)
qed

lemma extractUrls_distinct: "distinct (extractUrls text)"
  by (simp add: extractUrls_def Let_def remove_duplicates_distinct)

lemma trim_whitespace_only:
  assumes "\<forall>c\<in>set s. js_whitespace c"
  shows "trim s = []"
proof -
  have d: "dropWhile js_whitespace s = []"
    using assms by (induction s) auto
  show ?thesis unfolding trim_def d by simp
qed

text \<open>
  Claim C10, as the code has it. Whatever the input, \<open>extractUrls\<close> returns a list
  without duplicates in which every element begins with \<open>http://\<close> or
  \<open>https://\<close> up to the case of the letters (a match without a scheme is prefixed
  with \<open>https://\<close>; a match with a scheme keeps its spelling), and it returns the
  empty list for an input of white space only, the empty input included.
\<close>

theorem extractUrls_properties:
  "distinct (extractUrls text)
   \<and> (\<forall>u\<in>set (extractUrls text). starts_with_ci ''http://'' u \<or> starts_with_ci ''https://'' u)
   \<and> ((\<forall>c\<in>set text. js_whitespace c) \<longrightarrow> extractUrls text = [])"
proof -
  have "\<forall>u\<in>set (extractUrls text). starts_with_ci ''http://'' u \<or> starts_with_ci ''https://'' u"
    using extractUrls_elements normalize_url_scheme has_http_scheme_iff by blast
  moreover have "(\<forall>c\<in>set text. js_whitespace c) \<longrightarrow> extractUrls text = []"
    using trim_whitespace_only by (auto simp: extractUrls_def)
  ultimately show ?thesis using extractUrls_distinct by blast
qed

theorem extractUrls_properties_witness:
  "extractUrls ''go to www.a.com, Http://b.org/x?y=1. or www.a.com''
     = [''https://www.a.com'', ''Http://b.org/x?y=1'']
   \<and> distinct [''https://www.a.com'', ''Http://b.org/x?y=1'']
   \<and> starts_with_ci ''https://'' ''https://www.a.com''
   \<and> starts_with_ci ''http://'' ''Http://b.org/x?y=1''
   \<and> js_whitespace CHR '' ''
   \<and> extractUrls ''  '' = []"
proof -
  have e: "extractUrls ''go to www.a.com, Http://b.org/x?y=1. or www.a.com''
     = [''https://www.a.com'', ''Http://b.org/x?y=1'']"
    by code_simp
  have w: "\<forall>c\<in>set ''  ''. js_whitespace c"
    by (simp add: js_whitespace_def)
  from extractUrls_properties [of "''go to www.a.com, Http://b.org/x?y=1. or www.a.com''"]
    extractUrls_properties [of "''  ''"] e w
  show ?thesis
    by (simp add: js_whitespace_def starts_with_ci_def ascii_lower_def)
qed

text \<open>
  Claim C10 as stated fails for a scheme typed in capitals: both patterns carry the
  flag \<open>i\<close>, so the match is accepted and returned as typed.
\<close>

theorem extractUrls_uppercase_scheme_counterexample:
  "extractUrls ''HTTP://x.com'' = [''HTTP://x.com'']
   \<and> take 7 ''HTTP://x.com'' \<noteq> ''http://''
   \<and> take 8 ''HTTP://x.com'' \<noteq> ''https://''"
  by code_simp

end
